theory Spec2Isabelle
  imports Main
begin

section \<open>Data model\<close>

text \<open>
  The record type of \<^verbatim>\<open>types.ts\<close>. The fields \<open>id\<close>, \<open>name\<close> and \<open>path\<close> are read by
  the components as they are. The other five are read through a \<^verbatim>\<open>||\<close> default or a
  truthiness test (\<^verbatim>\<open>app.arguments || ""\<close>, \<^verbatim>\<open>app.auto_start\<close>), because a record that
  crosses the process boundary may lack them (the earlier declaration of the interface
  has no \<open>auto_start\<close> at all); such a field is an \<open>option\<close>, \<open>None\<close> standing for
  \<^verbatim>\<open>undefined\<close>. The field \<open>id\<close> is named \<open>id_app\<close> here. A JavaScript number that
  counts seconds is an \<open>int\<close>.
\<close>

record RegisteredApp =
  id_app :: string
  name :: string
  path :: string
  arguments :: "string option"
  description :: "string option"
  delay :: "int option"
  prevent_duplicate :: "bool option"
  auto_start :: "bool option"

text \<open>The form of the settings panel (\<^verbatim>\<open>formData\<close> in \<^verbatim>\<open>Settings.tsx\<close>).\<close>

record form =
  name_f :: string
  path_f :: string
  arguments_f :: string
  description_f :: string
  delay_f :: int
  preventDuplicate :: bool
  autoStart :: bool

text \<open>Values that travel in the argument object of \<^verbatim>\<open>invoke\<close>.\<close>

datatype jsval = JStr string | JNum int | JBool bool | JUndefined

type_synonym payload = "(string \<times> jsval) list"

type_synonym error = string

text \<open>
  The texts shown to the user are Japanese in the source; each is a constructor here:
  \<open>NameAndPathRequired\<close> (name and path are mandatory), \<open>SaveFailed\<close>, \<open>DeleteFailed\<close>,
  \<open>LaunchFailed\<close> and \<open>StopFailed\<close> (both followed by the error), and \<open>ConfirmDelete\<close>
  (the question asked before the app of that name is removed).
\<close>

datatype message =
    NameAndPathRequired
  | SaveFailed
  | DeleteFailed
  | LaunchFailed error
  | StopFailed error
  | ConfirmDelete string

text \<open>
  What a handler does to the outside, in the order it does it: a call across the process
  boundary, the rejection of that call, console output, dialogs, and a promise that was
  started without \<^verbatim>\<open>await\<close> and rejected with nobody to catch it.
\<close>

datatype event =
    Invoke string payload
  | Rejected error
  | ConsoleError string error
  | ConsoleLog string
  | Alert message
  | Confirm message
  | UnhandledRejection error

section \<open>Handlers as programs with state, exceptions and a trace\<close>

text \<open>
  A handler runs on a world: the state of its component and the state of the native
  side. It ends normally (\<open>Inr\<close>) or by an exception (\<open>Inl\<close>), in a new world, having
  produced a list of events. A handler is run from its start to its end, with every
  \<^verbatim>\<open>await\<close> answered at once and no other handler in between; a state setter takes
  effect where it is called.
\<close>

record ('u, 'b) world =
  ui :: 'u
  remote :: 'b

type_synonym ('w, 'a) js = "'w \<Rightarrow> (error + 'a) \<times> 'w \<times> event list"

definition js_return :: "'a \<Rightarrow> ('w, 'a) js" where
  "js_return x = (\<lambda>w. (Inr x, w, []))"

definition js_bind :: "('w, 'a) js \<Rightarrow> ('a \<Rightarrow> ('w, 'c) js) \<Rightarrow> ('w, 'c) js" where
  "js_bind m f = (\<lambda>w.
     case m w of
       (Inl e, w', evs) \<Rightarrow> (Inl e, w', evs)
     | (Inr x, w', evs) \<Rightarrow> (case f x w' of (r, w'', evs') \<Rightarrow> (r, w'', evs @ evs')))"

text \<open>\<^verbatim>\<open>try { m } catch (error) { h error }\<close>\<close>

definition js_try :: "('w, 'a) js \<Rightarrow> (error \<Rightarrow> ('w, 'a) js) \<Rightarrow> ('w, 'a) js" where
  "js_try m h = (\<lambda>w.
     case m w of
       (Inl e, w', evs) \<Rightarrow> (case h e w' of (r, w'', evs') \<Rightarrow> (r, w'', evs @ evs'))
     | (Inr x, w', evs) \<Rightarrow> (Inr x, w', evs))"

text \<open>\<^verbatim>\<open>try { ... } finally { f }\<close>: \<open>f\<close> runs in both cases and keeps the outcome of the body
  unless it throws itself.\<close>

definition js_finally :: "('w, 'a) js \<Rightarrow> ('w, unit) js \<Rightarrow> ('w, 'a) js" where
  "js_finally m f = (\<lambda>w.
     case m w of (r, w', evs) \<Rightarrow>
       (case f w' of
          (Inl e, w'', evs') \<Rightarrow> (Inl e, w'', evs @ evs')
        | (Inr _, w'', evs') \<Rightarrow> (r, w'', evs @ evs')))"

text \<open>
  A call of an async function without \<^verbatim>\<open>await\<close>. The callee is run to its end at
  the place of the call; an exception of the callee does not reach the caller's
  \<^verbatim>\<open>catch\<close>, it is an unhandled rejection.
\<close>

definition js_spawn :: "('w, 'a) js \<Rightarrow> ('w, unit) js" where
  "js_spawn m = (\<lambda>w.
     case m w of
       (Inl e, w', evs) \<Rightarrow> (Inr (), w', evs @ [UnhandledRejection e])
     | (Inr _, w', evs) \<Rightarrow> (Inr (), w', evs))"

definition emit :: "event \<Rightarrow> ('w, unit) js" where
  "emit ev = (\<lambda>w. (Inr (), w, [ev]))"

definition get_ui :: "(('u, 'b) world, 'u) js" where
  "get_ui = (\<lambda>w. (Inr (ui w), w, []))"

definition set_ui :: "('u \<Rightarrow> 'u) \<Rightarrow> (('u, 'b) world, unit) js" where
  "set_ui f = (\<lambda>w. (Inr (), w\<lparr>ui := f (ui w)\<rparr>, []))"

subsection \<open>The native side\<close>

text \<open>
  The commands are implemented outside the files at hand. A backend is any state
  machine that answers them: the list of registered apps, the file dialog (a path or
  \<^verbatim>\<open>null\<close>), and the commands whose result the components never read, chosen by name.
  Each answer resolves (\<open>Inr\<close>) or rejects with a message (\<open>Inl\<close>).
\<close>

record 'b backend =
  be_apps :: "'b \<Rightarrow> (error + RegisteredApp list) \<times> 'b"
  be_dialog :: "'b \<Rightarrow> (error + string option) \<times> 'b"
  be_void :: "string \<Rightarrow> payload \<Rightarrow> 'b \<Rightarrow> (error + unit) \<times> 'b"

text \<open>\<^verbatim>\<open>await invoke(cmd, args)\<close>: a rejected promise is thrown at the \<^verbatim>\<open>await\<close>.\<close>

definition invoke_with ::
  "('b \<Rightarrow> (error + 'a) \<times> 'b) \<Rightarrow> string \<Rightarrow> payload \<Rightarrow> (('u, 'b) world, 'a) js" where
  "invoke_with answer cmd args = (\<lambda>w.
     case answer (remote w) of
       (Inl e, b') \<Rightarrow> (Inl e, w\<lparr>remote := b'\<rparr>, [Invoke cmd args, Rejected e])
     | (Inr x, b') \<Rightarrow> (Inr x, w\<lparr>remote := b'\<rparr>, [Invoke cmd args]))"

definition invoke_apps :: "'b backend \<Rightarrow> (('u, 'b) world, RegisteredApp list) js" where
  "invoke_apps be = invoke_with (be_apps be) ''get_registered_apps'' []"

definition invoke_dialog :: "'b backend \<Rightarrow> (('u, 'b) world, string option) js" where
  "invoke_dialog be = invoke_with (be_dialog be) ''open_file_dialog'' []"

definition invoke :: "'b backend \<Rightarrow> string \<Rightarrow> payload \<Rightarrow> (('u, 'b) world, unit) js" where
  "invoke be cmd args = invoke_with (be_void be cmd args) cmd args"

subsection \<open>Truthiness\<close>

text \<open>
  The empty string, \<open>0\<close>, \<^verbatim>\<open>false\<close>, \<^verbatim>\<open>null\<close> and \<^verbatim>\<open>undefined\<close> are falsy;
  \<^verbatim>\<open>a || d\<close> is \<open>a\<close> when \<open>a\<close> is truthy and \<open>d\<close> otherwise.
\<close>

definition truthy_str :: "string \<Rightarrow> bool" where
  "truthy_str s = (s \<noteq> [])"

definition truthy_bool_opt :: "bool option \<Rightarrow> bool" where
  "truthy_bool_opt v = (case v of None \<Rightarrow> False | Some b \<Rightarrow> b)"

definition or_str :: "string option \<Rightarrow> string \<Rightarrow> string" where
  "or_str v d = (case v of None \<Rightarrow> d | Some s \<Rightarrow> if truthy_str s then s else d)"

definition or_num :: "int option \<Rightarrow> int \<Rightarrow> int" where
  "or_num v d = (case v of None \<Rightarrow> d | Some n \<Rightarrow> if n \<noteq> 0 then n else d)"

definition or_bool :: "bool option \<Rightarrow> bool \<Rightarrow> bool" where
  "or_bool v d = (case v of None \<Rightarrow> d | Some b \<Rightarrow> if b then b else d)"

definition js_of_str_opt :: "string option \<Rightarrow> jsval" where
  "js_of_str_opt v = (case v of None \<Rightarrow> JUndefined | Some s \<Rightarrow> JStr s)"

section \<open>The settings panel\<close>

record settings =
  registeredApps :: "RegisteredApp list"
  isLoading :: bool
  showAddForm :: bool
  editingApp :: "RegisteredApp option"
  formData :: form

definition empty_form :: "form" where
  "empty_form = \<lparr>name_f = '''', path_f = '''', arguments_f = '''', description_f = '''',
     delay_f = 0, preventDuplicate = False, autoStart = False\<rparr>"

definition loadRegisteredApps :: "'b backend \<Rightarrow> ((settings, 'b) world, unit) js" where
  "loadRegisteredApps be =
     js_bind (set_ui (\<lambda>s. s\<lparr>isLoading := True\<rparr>)) (\<lambda>_.
     js_finally
       (js_try
          (js_bind (invoke_apps be) (\<lambda>apps. set_ui (\<lambda>s. s\<lparr>registeredApps := apps\<rparr>)))
          (\<lambda>error. emit (ConsoleError ''Failed to load registered apps:'' error)))
       (set_ui (\<lambda>s. s\<lparr>isLoading := False\<rparr>)))"

definition resetForm :: "((settings, 'b) world, unit) js" where
  "resetForm =
     js_bind (set_ui (\<lambda>s. s\<lparr>formData := empty_form\<rparr>)) (\<lambda>_.
     js_bind (set_ui (\<lambda>s. s\<lparr>showAddForm := False\<rparr>)) (\<lambda>_.
     set_ui (\<lambda>s. s\<lparr>editingApp := None\<rparr>)))"

definition handleAdd :: "((settings, 'b) world, unit) js" where
  "handleAdd =
     js_bind (emit (ConsoleLog ''Add button clicked'')) (\<lambda>_.
     js_bind resetForm (\<lambda>_.
     set_ui (\<lambda>s. s\<lparr>showAddForm := True\<rparr>)))"

definition handleEdit :: "RegisteredApp \<Rightarrow> ((settings, 'b) world, unit) js" where
  "handleEdit app =
     js_bind (set_ui (\<lambda>s. s\<lparr>formData :=
        \<lparr>name_f = name app,
         path_f = path app,
         arguments_f = or_str (arguments app) '''',
         description_f = or_str (description app) '''',
         delay_f = or_num (delay app) 0,
         preventDuplicate = or_bool (prevent_duplicate app) False,
         autoStart = or_bool (auto_start app) False\<rparr>\<rparr>)) (\<lambda>_.
     js_bind (set_ui (\<lambda>s. s\<lparr>editingApp := Some app\<rparr>)) (\<lambda>_.
     set_ui (\<lambda>s. s\<lparr>showAddForm := True\<rparr>)))"

definition form_args :: "form \<Rightarrow> payload" where
  "form_args fd =
     [(''name'', JStr (name_f fd)),
      (''path'', JStr (path_f fd)),
      (''arguments'', JStr (arguments_f fd)),
      (''description'', JStr (description_f fd)),
      (''delay'', JNum (delay_f fd)),
      (''preventDuplicate'', JBool (preventDuplicate fd)),
      (''autoStart'', JBool (autoStart fd))]"

text \<open>
  \<open>handleSave\<close> reads \<open>formData\<close> and \<open>editingApp\<close> as its closure holds them, that is as
  they are when it starts. \<open>loadRegisteredApps\<close> is called without \<^verbatim>\<open>await\<close>.
\<close>

definition handleSave :: "'b backend \<Rightarrow> ((settings, 'b) world, unit) js" where
  "handleSave be =
     js_bind get_ui (\<lambda>s.
       if \<not> truthy_str (name_f (formData s)) \<or> \<not> truthy_str (path_f (formData s))
       then emit (Alert NameAndPathRequired)
       else
         js_try
           (js_bind
              (case editingApp s of
                 Some app \<Rightarrow>
                   invoke be ''update_registered_app''
                     ((''id'', JStr (id_app app)) # form_args (formData s))
               | None \<Rightarrow>
                   invoke be ''add_registered_app'' (form_args (formData s))) (\<lambda>_.
            js_bind resetForm (\<lambda>_.
            js_spawn (loadRegisteredApps be))))
           (\<lambda>error.
              js_bind (emit (ConsoleError ''Failed to save app:'' error)) (\<lambda>_.
              emit (Alert SaveFailed))))"

text \<open>The answer of the user to \<^verbatim>\<open>confirm\<close> is the argument \<open>yes\<close>.\<close>

definition handleDelete :: "'b backend \<Rightarrow> bool \<Rightarrow> RegisteredApp \<Rightarrow> ((settings, 'b) world, unit) js" where
  "handleDelete be yes app =
     js_bind (emit (Confirm (ConfirmDelete (name app)))) (\<lambda>_.
       if yes then
         js_try
           (js_bind (invoke be ''remove_registered_app'' [(''id'', JStr (id_app app))]) (\<lambda>_.
            js_spawn (loadRegisteredApps be)))
           (\<lambda>error.
              js_bind (emit (ConsoleError ''Failed to delete app:'' error)) (\<lambda>_.
              emit (Alert DeleteFailed)))
       else js_return ())"

text \<open>
  \<open>selectFile\<close> spreads the \<open>formData\<close> of its closure, read when it starts. The test
  \<^verbatim>\<open>if (path)\<close> on a value that is a string or \<^verbatim>\<open>null\<close> fails for \<^verbatim>\<open>null\<close> and for the
  empty string.
\<close>

definition selectFile :: "'b backend \<Rightarrow> ((settings, 'b) world, unit) js" where
  "selectFile be =
     js_bind get_ui (\<lambda>s0.
       js_try
         (js_bind (invoke_dialog be) (\<lambda>p.
            case p of
              None \<Rightarrow> js_return ()
            | Some chosen \<Rightarrow>
                if truthy_str chosen
                then set_ui (\<lambda>s. s\<lparr>formData := (formData s0)\<lparr>path_f := chosen\<rparr>\<rparr>)
                else js_return ()))
         (\<lambda>error. emit (ConsoleError ''Failed to select file:'' error)))"

section \<open>The main window\<close>

text \<open>
  The main window with the set of running apps (the longer of the two \<^verbatim>\<open>App\<close>
  components). A JavaScript \<^verbatim>\<open>Set\<close> of strings is a set; only membership is ever read.
\<close>

record app_state =
  showSettings :: bool
  registeredApps_App :: "RegisteredApp list"
  runningApps :: "string set"

definition loadRegisteredApps_App :: "'b backend \<Rightarrow> ((app_state, 'b) world, unit) js" where
  "loadRegisteredApps_App be =
     js_try
       (js_bind (invoke_apps be) (\<lambda>apps. set_ui (\<lambda>s. s\<lparr>registeredApps_App := apps\<rparr>)))
       (\<lambda>error. emit (ConsoleError ''Failed to load registered apps:'' error))"

text \<open>\<^verbatim>\<open>[...new Set(xs)]\<close>: the elements of \<open>xs\<close> once each, in the order they first occur.\<close>

definition spread_set :: "'a list \<Rightarrow> 'a list" where
  "spread_set xs = rev (remdups (rev xs))"

definition loadRunningApps :: "'b backend \<Rightarrow> ((app_state, 'b) world, unit) js" where
  "loadRunningApps be =
     js_try
       (js_bind (invoke_apps be) (\<lambda>apps.
          let autoStartAppIds = map id_app (filter (\<lambda>app. truthy_bool_opt (auto_start app)) apps);
              allRunningIds = spread_set autoStartAppIds
          in set_ui (\<lambda>s. s\<lparr>runningApps := set allRunningIds\<rparr>)))
       (\<lambda>error. emit (ConsoleError ''Failed to load running apps:'' error))"

definition launch_args :: "RegisteredApp \<Rightarrow> payload" where
  "launch_args app =
     [(''appId'', JStr (id_app app)),
      (''path'', JStr (path app)),
      (''arguments'', js_of_str_opt (arguments app))]"

definition handleLaunchApp :: "'b backend \<Rightarrow> RegisteredApp \<Rightarrow> ((app_state, 'b) world, unit) js" where
  "handleLaunchApp be app =
     js_try
       (js_bind (invoke be ''launch_application'' (launch_args app)) (\<lambda>_.
        set_ui (\<lambda>prev. prev\<lparr>runningApps := insert (id_app app) (runningApps prev)\<rparr>)))
       (\<lambda>error.
          js_bind (emit (ConsoleError ''Failed to launch application:'' error)) (\<lambda>_.
          emit (Alert (LaunchFailed error))))"

definition handleStopApp :: "'b backend \<Rightarrow> RegisteredApp \<Rightarrow> ((app_state, 'b) world, unit) js" where
  "handleStopApp be app =
     js_try
       (js_bind (emit (ConsoleLog (''Stopping app: '' @ name app @ '' (ID: '' @ id_app app @ '')''))) (\<lambda>_.
        js_bind (invoke be ''stop_application'' [(''appId'', JStr (id_app app))]) (\<lambda>_.
        js_bind (set_ui (\<lambda>prev. prev\<lparr>runningApps := runningApps prev - {id_app app}\<rparr>)) (\<lambda>_.
        emit (ConsoleLog (''Successfully stopped '' @ name app))))))
       (\<lambda>error.
          js_bind (emit (ConsoleError ''Failed to stop application:'' error)) (\<lambda>_.
          emit (Alert (StopFailed error))))"

definition hideWindow :: "'b backend \<Rightarrow> (('u, 'b) world, unit) js" where
  "hideWindow be =
     js_try
       (invoke be ''hide_window'' [])
       (\<lambda>error. emit (ConsoleError ''Failed to hide window:'' error))"

definition handleSettingsClose :: "'b backend \<Rightarrow> ((app_state, 'b) world, unit) js" where
  "handleSettingsClose be =
     js_bind (set_ui (\<lambda>s. s\<lparr>showSettings := False\<rparr>)) (\<lambda>_.
     js_bind (js_spawn (loadRegisteredApps_App be)) (\<lambda>_.
     js_spawn (loadRunningApps be)))"

text \<open>
  The shorter \<^verbatim>\<open>App\<close> component (\<^verbatim>\<open>src/App.tsx\<close>) keeps no set of running apps. Its
  names carry the suffix \<open>_App0\<close>; its \<open>hideWindow\<close> is the one above, word for word.
\<close>

record app_state0 =
  showSettings_App0 :: bool
  registeredApps_App0 :: "RegisteredApp list"

definition loadRegisteredApps_App0 :: "'b backend \<Rightarrow> ((app_state0, 'b) world, unit) js" where
  "loadRegisteredApps_App0 be =
     js_try
       (js_bind (invoke_apps be) (\<lambda>apps. set_ui (\<lambda>s. s\<lparr>registeredApps_App0 := apps\<rparr>)))
       (\<lambda>error. emit (ConsoleError ''Failed to load registered apps:'' error))"

definition handleLaunchApp_App0 :: "'b backend \<Rightarrow> RegisteredApp \<Rightarrow> ((app_state0, 'b) world, unit) js" where
  "handleLaunchApp_App0 be app =
     js_try
       (invoke be ''launch_application'' (launch_args app))
       (\<lambda>error. emit (ConsoleError ''Failed to launch application:'' error))"

definition handleSettingsClose_App0 :: "'b backend \<Rightarrow> ((app_state0, 'b) world, unit) js" where
  "handleSettingsClose_App0 be =
     js_bind (set_ui (\<lambda>s. s\<lparr>showSettings_App0 := False\<rparr>)) (\<lambda>_.
     js_spawn (loadRegisteredApps_App0 be))"

section \<open>Reading a run\<close>

text \<open>The three parts of a run: how it ended, the world it left, the events in order.\<close>

fun outcome :: "(error + 'a) \<times> 'w \<times> event list \<Rightarrow> error + 'a" where
  "outcome (r, w, evs) = r"

fun after :: "(error + 'a) \<times> 'w \<times> event list \<Rightarrow> 'w" where
  "after (r, w, evs) = w"

fun trace :: "(error + 'a) \<times> 'w \<times> event list \<Rightarrow> event list" where
  "trace (r, w, evs) = evs"

text \<open>
  Every rejection is followed at once by console output that has a text and carries the
  same error, and no promise is left rejected with nobody to catch it.
\<close>

fun reported :: "event list \<Rightarrow> bool" where
  "reported [] = True"
| "reported (Rejected e # ConsoleError m e' # rest) = (e' = e \<and> m \<noteq> [] \<and> reported rest)"
| "reported (Rejected e # rest) = False"
| "reported (UnhandledRejection e # rest) = False"
| "reported (ev # rest) = reported rest"

fun is_invoke_of :: "string \<Rightarrow> event \<Rightarrow> bool" where
  "is_invoke_of cmd (Invoke c args) = (c = cmd)"
| "is_invoke_of cmd ev = False"

definition invocations :: "event list \<Rightarrow> (string \<times> payload) list" where
  "invocations evs = concat (map (\<lambda>ev. case ev of Invoke c args \<Rightarrow> [(c, args)] | _ \<Rightarrow> []) evs)"

section \<open>Inputs to run the handlers on\<close>

text \<open>Backends with fixed answers and no state, two records, and worlds built from them.\<close>

definition fixed_backend ::
  "(error + RegisteredApp list) \<Rightarrow> (error + string option) \<Rightarrow> (error + unit) \<Rightarrow> unit backend" where
  "fixed_backend a d v =
     \<lparr>be_apps = (\<lambda>b. (a, b)), be_dialog = (\<lambda>b. (d, b)), be_void = (\<lambda>cmd args b. (v, b))\<rparr>"

definition notepad_app :: "RegisteredApp" where
  "notepad_app = \<lparr>id_app = ''a1'', name = ''Notepad'', path = ''C:/Windows/notepad.exe'',
     arguments = None, description = Some ''editor'', delay = Some 0,
     prevent_duplicate = Some True, auto_start = None\<rparr>"

definition clock_app :: "RegisteredApp" where
  "clock_app = \<lparr>id_app = ''b2'', name = ''Clock'', path = ''/usr/bin/xclock'',
     arguments = Some ''-digital'', description = None, delay = Some 3,
     prevent_duplicate = Some False, auto_start = Some True\<rparr>"

definition settings0 :: "settings" where
  "settings0 = \<lparr>registeredApps = [notepad_app], isLoading = False, showAddForm = True,
     editingApp = None, formData = empty_form\<rparr>"

definition world0 :: "(settings, unit) world" where
  "world0 = \<lparr>ui = settings0, remote = ()\<rparr>"

definition form1 :: "form" where
  "form1 = \<lparr>name_f = ''Editor'', path_f = ''C:/old.exe'', arguments_f = ''-n'',
     description_f = ''my editor'', delay_f = 5, preventDuplicate = True, autoStart = False\<rparr>"

definition world1 :: "(settings, unit) world" where
  "world1 = \<lparr>ui = settings0\<lparr>editingApp := Some notepad_app, formData := form1\<rparr>, remote = ()\<rparr>"

definition app_world0 :: "(app_state, unit) world" where
  "app_world0 = \<lparr>ui = \<lparr>showSettings = False, registeredApps_App = [notepad_app, clock_app],
     runningApps = {''b2''}\<rparr>, remote = ()\<rparr>"

definition app0_world0 :: "(app_state0, unit) world" where
  "app0_world0 = \<lparr>ui = \<lparr>showSettings_App0 = True, registeredApps_App0 = []\<rparr>, remote = ()\<rparr>"

definition be_ok :: "unit backend" where
  "be_ok = fixed_backend (Inr [notepad_app, clock_app]) (Inr (Some ''D:/new.exe'')) (Inr ())"

definition be_down :: "unit backend" where
  "be_down = fixed_backend (Inl ''offline'') (Inl ''offline'') (Inl ''offline'')"

definition be_blank :: "unit backend" where
  "be_blank = fixed_backend (Inr []) (Inr (Some [])) (Inr ())"

section \<open>The launch supervisor\<close>

text \<open>
  Modelled from the spec: the errors of the Launch Supervisor that a launch can end in.
  The supervisor is part of the native side, which is not among the files at hand.
\<close>

datatype failure = NotFound | LaunchError

text \<open>
  Modelled from the spec: a RunningInstance is transient, belongs to the Launch
  Supervisor, is keyed by the id of its app and holds a process handle and a start
  timestamp.
\<close>

record RunningInstance =
  instance_of :: string
  handle :: nat
  started :: nat

text \<open>
  Modelled from the spec: the state of the Launch Supervisor is the registered records
  it looks up through the Registry Service and the table of running instances. An app
  without duplicate prevention may have several instances, so the table is a list. The
  field \<open>spawned\<close> counts the processes started so far.
\<close>

record supervisor =
  registry :: "RegisteredApp list"
  instances :: "RunningInstance list"
  spawned :: nat

text \<open>Modelled from the spec: the lookup of a record by id, absent from the files at hand.\<close>

definition lookup_app :: "supervisor \<Rightarrow> string \<Rightarrow> RegisteredApp option" where
  "lookup_app sv i = find (\<lambda>a. id_app a = i) (registry sv)"

text \<open>Modelled from the spec: the running instances of one app, absent from the files at hand.\<close>

definition instances_of :: "supervisor \<Rightarrow> string \<Rightarrow> RunningInstance list" where
  "instances_of sv i = filter (\<lambda>r. instance_of r = i) (instances sv)"

text \<open>
  Modelled from the spec: \<open>launch(id)\<close> of the Launch Supervisor, absent from the files
  at hand. It looks the record up and fails with NotFound if it is missing. If
  \<open>prevent_duplicate\<close> is true and a RunningInstance already exists for the id, it returns
  success without spawning. Otherwise it spawns the process with the configured path
  and arguments and records a RunningInstance; a spawn failure surfaces as LaunchError
  and leaves the state as it was. The operating system is the argument \<open>spawn\<close>, which
  gives a process handle or fails; \<open>now\<close> is the time of the call.
\<close>

definition launch ::
  "(string \<Rightarrow> string option \<Rightarrow> nat option) \<Rightarrow> nat \<Rightarrow> string \<Rightarrow> supervisor
     \<Rightarrow> (failure + unit) \<times> supervisor" where
  "launch spawn now i sv =
     (case lookup_app sv i of
        None \<Rightarrow> (Inl NotFound, sv)
      | Some app \<Rightarrow>
          if prevent_duplicate app = Some True \<and> instances_of sv i \<noteq> []
          then (Inr (), sv)
          else
            (case spawn (path app) (arguments app) of
               None \<Rightarrow> (Inl LaunchError, sv)
             | Some h \<Rightarrow>
                 (Inr (),
                  sv\<lparr>instances := instances sv @ [\<lparr>instance_of = i, handle = h, started = now\<rparr>],
                     spawned := Suc (spawned sv)\<rparr>)))"

text \<open>A supervisor with two registered apps and nothing running, and an operating system
  that starts every process.\<close>

definition supervisor0 :: "supervisor" where
  "supervisor0 = \<lparr>registry = [notepad_app, clock_app], instances = [], spawned = 0\<rparr>"

definition spawn_ok :: "string \<Rightarrow> string option \<Rightarrow> nat option" where
  "spawn_ok p a = Some 4242"

lemmas js_defs =
  js_return_def js_bind_def js_try_def js_finally_def js_spawn_def emit_def get_ui_def
  set_ui_def invoke_with_def invoke_apps_def invoke_dialog_def invoke_def

section \<open>Properties of the settings panel\<close>

lemma resetForm_run:
  "resetForm w =
     (Inr (), w\<lparr>ui := (ui w)\<lparr>formData := empty_form, showAddForm := False, editingApp := None\<rparr>\<rparr>, [])"
  by (simp add: resetForm_def js_defs)

lemma loadRegisteredApps_run:
  "loadRegisteredApps be w =
     (case be_apps be (remote w) of
        (Inl e, b') \<Rightarrow>
          (Inr (), \<lparr>ui = (ui w)\<lparr>isLoading := False\<rparr>, remote = b'\<rparr>,
           [Invoke ''get_registered_apps'' [], Rejected e,
            ConsoleError ''Failed to load registered apps:'' e])
      | (Inr apps, b') \<Rightarrow>
          (Inr (), \<lparr>ui = (ui w)\<lparr>registeredApps := apps, isLoading := False\<rparr>, remote = b'\<rparr>,
           [Invoke ''get_registered_apps'' []]))"
  by (simp add: loadRegisteredApps_def js_defs split: prod.splits sum.splits)

lemma handleSave_run:
  "handleSave be w =
     (let s = ui w; fd = formData s in
      if name_f fd = [] \<or> path_f fd = [] then (Inr (), w, [Alert NameAndPathRequired])
      else
        (let cmd = (case editingApp s of None \<Rightarrow> ''add_registered_app''
                    | Some app \<Rightarrow> ''update_registered_app'');
             args = (case editingApp s of None \<Rightarrow> form_args fd
                    | Some app \<Rightarrow> (''id'', JStr (id_app app)) # form_args fd)
         in case be_void be cmd args (remote w) of
              (Inl e, b') \<Rightarrow>
                (Inr (), w\<lparr>remote := b'\<rparr>,
                 [Invoke cmd args, Rejected e, ConsoleError ''Failed to save app:'' e,
                  Alert SaveFailed])
            | (Inr u, b') \<Rightarrow>
                (case loadRegisteredApps be
                   \<lparr>ui = s\<lparr>formData := empty_form, showAddForm := False, editingApp := None\<rparr>,
                    remote = b'\<rparr> of
                   (r, w', evs) \<Rightarrow> (Inr (), w', Invoke cmd args # evs))))"
  by (auto simp add: handleSave_def js_defs truthy_str_def resetForm_run loadRegisteredApps_run Let_def
      split: prod.splits sum.splits option.splits)

lemma invocations_simps:
  "invocations [] = []"
  "invocations (Invoke c a # evs) = (c, a) # invocations evs"
  "invocations (Rejected e # evs) = invocations evs"
  "invocations (ConsoleError m e # evs) = invocations evs"
  "invocations (ConsoleLog m # evs) = invocations evs"
  "invocations (Alert x # evs) = invocations evs"
  "invocations (Confirm x # evs) = invocations evs"
  "invocations (UnhandledRejection e # evs) = invocations evs"
  by (simp_all add: invocations_def)

text \<open>
  Claim C1. When the name or the path of the form is the empty string, \<open>handleSave\<close> only
  shows the alert: it makes no call to the native side, and the component state (the
  list of registered apps and the form among it) and the native side are as before. When
  both are non-empty, the first call it makes is \<open>add_registered_app\<close> with the form
  values, or \<open>update_registered_app\<close> with the id of the app being edited and the form
  values.
\<close>

theorem handleSave_requires_name_and_path:
  "(name_f (formData (ui w)) = [] \<or> path_f (formData (ui w)) = [] \<longrightarrow>
      handleSave be w = (Inr (), w, [Alert NameAndPathRequired]) \<and>
      invocations (trace (handleSave be w)) = []) \<and>
   (name_f (formData (ui w)) \<noteq> [] \<and> path_f (formData (ui w)) \<noteq> [] \<longrightarrow>
      take 1 (invocations (trace (handleSave be w))) =
        [case editingApp (ui w) of
           None \<Rightarrow> (''add_registered_app'', form_args (formData (ui w)))
         | Some app \<Rightarrow>
             (''update_registered_app'', (''id'', JStr (id_app app)) # form_args (formData (ui w)))])"
  by (auto simp add: handleSave_run Let_def invocations_simps split: prod.splits sum.splits option.splits)

theorem handleSave_requires_name_and_path_witness:
  "name_f (formData (ui world0)) = [] \<and>
   handleSave be_ok world0 = (Inr (), world0, [Alert NameAndPathRequired]) \<and>
   invocations (trace (handleSave be_ok world0)) = [] \<and>
   name_f (formData (ui world1)) \<noteq> [] \<and> path_f (formData (ui world1)) \<noteq> [] \<and>
   take 1 (invocations (trace (handleSave be_ok world1))) =
     [(''update_registered_app'',
       [(''id'', JStr ''a1''), (''name'', JStr ''Editor''), (''path'', JStr ''C:/old.exe''),
        (''arguments'', JStr ''-n''), (''description'', JStr ''my editor''), (''delay'', JNum 5),
        (''preventDuplicate'', JBool True), (''autoStart'', JBool False)])]"
  using handleSave_requires_name_and_path [of world0 be_ok]
    handleSave_requires_name_and_path [of world1 be_ok]
  by (simp add: world0_def world1_def settings0_def empty_form_def form1_def form_args_def
      notepad_app_def invocations_simps)

text \<open>
  Claim C4. When an app is being edited and the name and the path of the form are
  non-empty, the first thing \<open>handleSave\<close> does is the call of \<open>update_registered_app\<close>
  whose \<open>id\<close> is the id of the app being edited and whose other seven arguments are the
  values of the form; it makes this call once and never calls \<open>add_registered_app\<close>.
  What the native side does with the call is outside the files at hand.
\<close>

theorem handleSave_update_keeps_id:
  "editingApp (ui w) = Some app \<Longrightarrow>
   name_f (formData (ui w)) \<noteq> [] \<Longrightarrow> path_f (formData (ui w)) \<noteq> [] \<Longrightarrow>
   take 1 (trace (handleSave be w)) =
     [Invoke ''update_registered_app''
        [(''id'', JStr (id_app app)),
         (''name'', JStr (name_f (formData (ui w)))),
         (''path'', JStr (path_f (formData (ui w)))),
         (''arguments'', JStr (arguments_f (formData (ui w)))),
         (''description'', JStr (description_f (formData (ui w)))),
         (''delay'', JNum (delay_f (formData (ui w)))),
         (''preventDuplicate'', JBool (preventDuplicate (formData (ui w)))),
         (''autoStart'', JBool (autoStart (formData (ui w))))]] \<and>
   length (filter (is_invoke_of ''update_registered_app'') (trace (handleSave be w))) = 1 \<and>
   filter (is_invoke_of ''add_registered_app'') (trace (handleSave be w)) = []"
  by (auto simp add: handleSave_run Let_def loadRegisteredApps_run form_args_def
      split: prod.splits sum.splits)

theorem handleSave_update_keeps_id_witness:
  "editingApp (ui world1) = Some notepad_app \<and>
   name_f (formData (ui world1)) \<noteq> [] \<and> path_f (formData (ui world1)) \<noteq> [] \<and>
   take 1 (trace (handleSave be_down world1)) =
     [Invoke ''update_registered_app''
        [(''id'', JStr ''a1''), (''name'', JStr ''Editor''), (''path'', JStr ''C:/old.exe''),
         (''arguments'', JStr ''-n''), (''description'', JStr ''my editor''), (''delay'', JNum 5),
         (''preventDuplicate'', JBool True), (''autoStart'', JBool False)]]"
  using handleSave_update_keeps_id [of world1 notepad_app be_down]
  by (simp add: world1_def settings0_def form1_def notepad_app_def)

text \<open>
  Claim C9. \<open>handleAdd\<close> leaves every field of the form at its default (the four texts
  empty, the delay 0, both flags false), no app being edited and the form shown, and
  changes nothing else. Whatever the form is filled with afterwards, a save from that
  state never calls \<open>update_registered_app\<close>, and with a name and a path it calls
  \<open>add_registered_app\<close> first.
\<close>

theorem handleAdd_canonical_add_state:
  "handleAdd w =
     (Inr (),
      w\<lparr>ui := (ui w)\<lparr>formData :=
           \<lparr>name_f = '''', path_f = '''', arguments_f = '''', description_f = '''',
            delay_f = 0, preventDuplicate = False, autoStart = False\<rparr>,
         editingApp := None, showAddForm := True\<rparr>\<rparr>,
      [ConsoleLog ''Add button clicked'']) \<and>
   filter (is_invoke_of ''update_registered_app'')
     (trace (handleSave be ((after (handleAdd w))\<lparr>ui := (ui (after (handleAdd w)))\<lparr>formData := fd\<rparr>, remote := b\<rparr>))) = [] \<and>
   (name_f fd \<noteq> [] \<and> path_f fd \<noteq> [] \<longrightarrow>
      take 1 (trace (handleSave be ((after (handleAdd w))\<lparr>ui := (ui (after (handleAdd w)))\<lparr>formData := fd\<rparr>, remote := b\<rparr>))) =
        [Invoke ''add_registered_app'' (form_args fd)])"
  by (auto simp add: handleAdd_def resetForm_run js_defs empty_form_def handleSave_run Let_def
      loadRegisteredApps_run split: prod.splits sum.splits)

theorem handleAdd_canonical_add_state_witness:
  "after (handleAdd world1) = world0 \<and>
   name_f form1 \<noteq> [] \<and> path_f form1 \<noteq> [] \<and>
   take 1 (trace (handleSave be_ok (world0\<lparr>ui := (ui world0)\<lparr>formData := form1\<rparr>, remote := ()\<rparr>))) =
     [Invoke ''add_registered_app'' (form_args form1)]"
proof -
  note t = handleAdd_canonical_add_state [where w = world1 and be = be_ok and fd = form1 and b = "()"]
  have h: "name_f form1 \<noteq> [] \<and> path_f form1 \<noteq> []"
    by (simp add: form1_def)
  from t have "handleAdd world1 =
     (Inr (),
      world1\<lparr>ui := (ui world1)\<lparr>formData :=
           \<lparr>name_f = [], path_f = [], arguments_f = [], description_f = [],
            delay_f = 0, preventDuplicate = False, autoStart = False\<rparr>,
         editingApp := None, showAddForm := True\<rparr>\<rparr>,
      [ConsoleLog ''Add button clicked''])"
    by (rule conjunct1)
  then have a: "after (handleAdd world1) = world0"
    by (simp add: world0_def world1_def settings0_def empty_form_def)
  from t h have "take 1 (trace (handleSave be_ok ((after (handleAdd world1))\<lparr>ui := (ui (after (handleAdd world1)))\<lparr>formData := form1\<rparr>, remote := ()\<rparr>))) =
        [Invoke ''add_registered_app'' (form_args form1)]"
    by blast
  with a h show ?thesis
    by simp
qed

text \<open>
  Claim C10. \<open>handleEdit\<close> fills the form from the record: name and path as they are,
  the empty string for missing arguments or description, 0 for a missing delay, false
  for a missing \<open>prevent_duplicate\<close> or \<open>auto_start\<close>; it records the app as the one being
  edited and shows the form. Every field of the form then holds a value of its type.
\<close>

theorem handleEdit_fills_form:
  "handleEdit app w =
     (Inr (),
      w\<lparr>ui := (ui w)\<lparr>formData :=
           \<lparr>name_f = name app,
            path_f = path app,
            arguments_f = (case arguments app of None \<Rightarrow> '''' | Some a \<Rightarrow> a),
            description_f = (case description app of None \<Rightarrow> '''' | Some d \<Rightarrow> d),
            delay_f = (case delay app of None \<Rightarrow> 0 | Some n \<Rightarrow> n),
            preventDuplicate = (case prevent_duplicate app of None \<Rightarrow> False | Some p \<Rightarrow> p),
            autoStart = (case auto_start app of None \<Rightarrow> False | Some a \<Rightarrow> a)\<rparr>,
         editingApp := Some app, showAddForm := True\<rparr>\<rparr>,
      [])"
  by (simp add: handleEdit_def js_defs or_str_def or_num_def or_bool_def truthy_str_def
      split: option.splits)

theorem handleEdit_fills_form_witness:
  "formData (ui (after (handleEdit notepad_app world1))) =
     \<lparr>name_f = ''Notepad'', path_f = ''C:/Windows/notepad.exe'', arguments_f = '''',
      description_f = ''editor'', delay_f = 0, preventDuplicate = True, autoStart = False\<rparr>"
  using handleEdit_fills_form [of notepad_app world1]
  by (simp add: notepad_app_def)

section \<open>Properties of the main window\<close>

lemma set_spread_set: "set (spread_set xs) = set xs"
  by (simp add: spread_set_def)

lemma loadRunningApps_run:
  "loadRunningApps be w =
     (case be_apps be (remote w) of
        (Inl e, b') \<Rightarrow>
          (Inr (), w\<lparr>remote := b'\<rparr>,
           [Invoke ''get_registered_apps'' [], Rejected e,
            ConsoleError ''Failed to load running apps:'' e])
      | (Inr apps, b') \<Rightarrow>
          (Inr (),
           \<lparr>ui = (ui w)\<lparr>runningApps :=
                  set (map id_app (filter (\<lambda>app. truthy_bool_opt (auto_start app)) apps))\<rparr>,
            remote = b'\<rparr>,
           [Invoke ''get_registered_apps'' []]))"
  by (simp add: loadRunningApps_def js_defs Let_def set_spread_set del: set_map
      split: prod.splits sum.splits)

lemma loadRegisteredApps_App_run:
  "loadRegisteredApps_App be w =
     (case be_apps be (remote w) of
        (Inl e, b') \<Rightarrow>
          (Inr (), w\<lparr>remote := b'\<rparr>,
           [Invoke ''get_registered_apps'' [], Rejected e,
            ConsoleError ''Failed to load registered apps:'' e])
      | (Inr apps, b') \<Rightarrow>
          (Inr (), \<lparr>ui = (ui w)\<lparr>registeredApps_App := apps\<rparr>, remote = b'\<rparr>,
           [Invoke ''get_registered_apps'' []]))"
  by (simp add: loadRegisteredApps_App_def js_defs split: prod.splits sum.splits)

lemma handleLaunchApp_run:
  "handleLaunchApp be app w =
     (case be_void be ''launch_application'' (launch_args app) (remote w) of
        (Inl e, b') \<Rightarrow>
          (Inr (), w\<lparr>remote := b'\<rparr>,
           [Invoke ''launch_application'' (launch_args app), Rejected e,
            ConsoleError ''Failed to launch application:'' e, Alert (LaunchFailed e)])
      | (Inr u, b') \<Rightarrow>
          (Inr (),
           \<lparr>ui = (ui w)\<lparr>runningApps := insert (id_app app) (runningApps (ui w))\<rparr>, remote = b'\<rparr>,
           [Invoke ''launch_application'' (launch_args app)]))"
  by (simp add: handleLaunchApp_def js_defs split: prod.splits sum.splits)

lemma handleLaunchApp_App0_run:
  "handleLaunchApp_App0 be app w =
     (case be_void be ''launch_application'' (launch_args app) (remote w) of
        (Inl e, b') \<Rightarrow>
          (Inr (), w\<lparr>remote := b'\<rparr>,
           [Invoke ''launch_application'' (launch_args app), Rejected e,
            ConsoleError ''Failed to launch application:'' e])
      | (Inr u, b') \<Rightarrow>
          (Inr (), w\<lparr>remote := b'\<rparr>, [Invoke ''launch_application'' (launch_args app)]))"
  by (simp add: handleLaunchApp_App0_def js_defs split: prod.splits sum.splits)

lemma handleStopApp_run:
  "handleStopApp be app w =
     (case be_void be ''stop_application'' [(''appId'', JStr (id_app app))] (remote w) of
        (Inl e, b') \<Rightarrow>
          (Inr (), w\<lparr>remote := b'\<rparr>,
           [ConsoleLog (''Stopping app: '' @ name app @ '' (ID: '' @ id_app app @ '')''),
            Invoke ''stop_application'' [(''appId'', JStr (id_app app))], Rejected e,
            ConsoleError ''Failed to stop application:'' e, Alert (StopFailed e)])
      | (Inr u, b') \<Rightarrow>
          (Inr (),
           \<lparr>ui = (ui w)\<lparr>runningApps := runningApps (ui w) - {id_app app}\<rparr>, remote = b'\<rparr>,
           [ConsoleLog (''Stopping app: '' @ name app @ '' (ID: '' @ id_app app @ '')''),
            Invoke ''stop_application'' [(''appId'', JStr (id_app app))],
            ConsoleLog (''Successfully stopped '' @ name app)]))"
  by (simp add: handleStopApp_def js_defs split: prod.splits sum.splits)

lemma auto_start_ids:
  "set (map id_app (filter (\<lambda>app. truthy_bool_opt (auto_start app)) apps)) =
     {i. \<exists>a \<in> set apps. auto_start a = Some True \<and> id_app a = i}"
  by (auto simp add: truthy_bool_opt_def split: option.splits)

text \<open>
  Claim C3. When \<open>get_registered_apps\<close> answers with a list of records,
  \<open>loadRunningApps\<close> sets \<open>runningApps\<close> to exactly the set of the ids of the records whose
  \<open>auto_start\<close> is true, and changes nothing else in the component. The set is a function
  of the list alone; no state of any process enters it.
\<close>

theorem loadRunningApps_auto_start_ids:
  "fst (be_apps be (remote w)) = Inr apps \<Longrightarrow>
   ui (after (loadRunningApps be w)) =
     (ui w)\<lparr>runningApps := {i. \<exists>a \<in> set apps. auto_start a = Some True \<and> id_app a = i}\<rparr>"
  by (cases "be_apps be (remote w)") (simp add: loadRunningApps_run auto_start_ids del: set_map set_filter)

theorem loadRunningApps_auto_start_ids_witness:
  "fst (be_apps be_ok (remote app_world0)) = Inr [notepad_app, clock_app] \<and>
   runningApps (ui (after (loadRunningApps be_ok app_world0))) = {''b2''}"
  using loadRunningApps_auto_start_ids [of be_ok app_world0 "[notepad_app, clock_app]"]
  by (auto simp add: be_ok_def fixed_backend_def app_world0_def notepad_app_def clock_app_def)

text \<open>
  Claim C5. The launch handler of either \<^verbatim>\<open>App\<close> component makes exactly one call
  across the boundary: \<open>launch_application\<close> with the three arguments \<open>appId\<close> (the id of
  the record), \<open>path\<close> (its path) and \<open>arguments\<close> (its arguments as they are), and
  nothing else.
\<close>

theorem launch_passes_id_path_arguments:
  "invocations (trace (handleLaunchApp be app w)) =
     [(''launch_application'',
       [(''appId'', JStr (id_app app)),
        (''path'', JStr (path app)),
        (''arguments'', case arguments app of None \<Rightarrow> JUndefined | Some a \<Rightarrow> JStr a)])] \<and>
   invocations (trace (handleLaunchApp_App0 be app w')) =
     [(''launch_application'',
       [(''appId'', JStr (id_app app)),
        (''path'', JStr (path app)),
        (''arguments'', case arguments app of None \<Rightarrow> JUndefined | Some a \<Rightarrow> JStr a)])]"
  by (simp add: handleLaunchApp_run handleLaunchApp_App0_run launch_args_def js_of_str_opt_def
      invocations_simps split: prod.splits sum.splits)

theorem launch_passes_id_path_arguments_witness:
  "invocations (trace (handleLaunchApp be_ok clock_app app_world0)) =
     [(''launch_application'',
       [(''appId'', JStr ''b2''), (''path'', JStr ''/usr/bin/xclock''),
        (''arguments'', JStr ''-digital'')])] \<and>
   invocations (trace (handleLaunchApp_App0 be_down clock_app app0_world0)) =
     [(''launch_application'',
       [(''appId'', JStr ''b2''), (''path'', JStr ''/usr/bin/xclock''),
        (''arguments'', JStr ''-digital'')])]"
  using launch_passes_id_path_arguments [where be = be_ok and app = clock_app and w = app_world0 and w' = app0_world0]
    launch_passes_id_path_arguments [where be = be_down and app = clock_app and w = app_world0 and w' = app0_world0]
  by (simp add: clock_app_def)

text \<open>
  Claim C6. When the call succeeds, \<open>handleLaunchApp\<close> adds the id of the app to
  \<open>runningApps\<close> and \<open>handleStopApp\<close> removes it; the membership of every other id and the
  rest of the component state stay as they were. When the call is rejected, the
  component state is unchanged.
\<close>

theorem running_set_frame:
  "(fst (be_void be ''launch_application'' (launch_args app) (remote w)) = Inr () \<longrightarrow>
      ui (after (handleLaunchApp be app w)) =
        (ui w)\<lparr>runningApps := insert (id_app app) (runningApps (ui w))\<rparr> \<and>
      (\<forall>i. i \<noteq> id_app app \<longrightarrow>
         (i \<in> runningApps (ui (after (handleLaunchApp be app w))) \<longleftrightarrow> i \<in> runningApps (ui w)))) \<and>
   (fst (be_void be ''launch_application'' (launch_args app) (remote w)) = Inl e \<longrightarrow>
      ui (after (handleLaunchApp be app w)) = ui w) \<and>
   (fst (be_void be ''stop_application'' [(''appId'', JStr (id_app app))] (remote w)) = Inr () \<longrightarrow>
      ui (after (handleStopApp be app w)) =
        (ui w)\<lparr>runningApps := runningApps (ui w) - {id_app app}\<rparr> \<and>
      (\<forall>i. i \<noteq> id_app app \<longrightarrow>
         (i \<in> runningApps (ui (after (handleStopApp be app w))) \<longleftrightarrow> i \<in> runningApps (ui w)))) \<and>
   (fst (be_void be ''stop_application'' [(''appId'', JStr (id_app app))] (remote w)) = Inl e \<longrightarrow>
      ui (after (handleStopApp be app w)) = ui w)"
  by (cases "be_void be ''launch_application'' (launch_args app) (remote w)";
      cases "be_void be ''stop_application'' [(''appId'', JStr (id_app app))] (remote w)")
     (auto simp add: handleLaunchApp_run handleStopApp_run)

theorem running_set_frame_witness:
  "fst (be_void be_ok ''launch_application'' (launch_args notepad_app) (remote app_world0)) = Inr () \<and>
   runningApps (ui (after (handleLaunchApp be_ok notepad_app app_world0))) = {''a1'', ''b2''} \<and>
   fst (be_void be_down ''launch_application'' (launch_args notepad_app) (remote app_world0)) = Inl ''offline'' \<and>
   runningApps (ui (after (handleLaunchApp be_down notepad_app app_world0))) = {''b2''} \<and>
   fst (be_void be_ok ''stop_application'' [(''appId'', JStr (id_app clock_app))] (remote app_world0)) = Inr () \<and>
   runningApps (ui (after (handleStopApp be_ok clock_app app_world0))) = {} \<and>
   fst (be_void be_down ''stop_application'' [(''appId'', JStr (id_app clock_app))] (remote app_world0)) = Inl ''offline'' \<and>
   runningApps (ui (after (handleStopApp be_down clock_app app_world0))) = {''b2''}"
  using running_set_frame [of be_ok notepad_app app_world0 "''offline''"]
    running_set_frame [of be_down notepad_app app_world0 "''offline''"]
    running_set_frame [of be_ok clock_app app_world0 "''offline''"]
    running_set_frame [of be_down clock_app app_world0 "''offline''"]
  by (simp add: be_ok_def be_down_def fixed_backend_def app_world0_def notepad_app_def clock_app_def)

section \<open>No failure escapes a handler\<close>

lemma handleDelete_run:
  "handleDelete be yes app w =
     (if yes then
        (case be_void be ''remove_registered_app'' [(''id'', JStr (id_app app))] (remote w) of
           (Inl e, b') \<Rightarrow>
             (Inr (), w\<lparr>remote := b'\<rparr>,
              [Confirm (ConfirmDelete (name app)),
               Invoke ''remove_registered_app'' [(''id'', JStr (id_app app))], Rejected e,
               ConsoleError ''Failed to delete app:'' e, Alert DeleteFailed])
         | (Inr u, b') \<Rightarrow>
             (case loadRegisteredApps be (w\<lparr>remote := b'\<rparr>) of
                (r, w', evs) \<Rightarrow>
                  (Inr (), w',
                   Confirm (ConfirmDelete (name app)) #
                   Invoke ''remove_registered_app'' [(''id'', JStr (id_app app))] # evs)))
      else (Inr (), w, [Confirm (ConfirmDelete (name app))]))"
  by (auto simp add: handleDelete_def js_defs loadRegisteredApps_run split: prod.splits sum.splits)

lemma selectFile_run:
  "selectFile be w =
     (case be_dialog be (remote w) of
        (Inl e, b') \<Rightarrow>
          (Inr (), w\<lparr>remote := b'\<rparr>,
           [Invoke ''open_file_dialog'' [], Rejected e, ConsoleError ''Failed to select file:'' e])
      | (Inr None, b') \<Rightarrow> (Inr (), w\<lparr>remote := b'\<rparr>, [Invoke ''open_file_dialog'' []])
      | (Inr (Some p), b') \<Rightarrow>
          (Inr (),
           (if p = [] then w\<lparr>remote := b'\<rparr>
            else \<lparr>ui = (ui w)\<lparr>formData := (formData (ui w))\<lparr>path_f := p\<rparr>\<rparr>, remote = b'\<rparr>),
           [Invoke ''open_file_dialog'' []]))"
  by (auto simp add: selectFile_def js_defs truthy_str_def
      split: prod.splits sum.splits option.splits)

lemma hideWindow_run:
  "hideWindow be w =
     (case be_void be ''hide_window'' [] (remote w) of
        (Inl e, b') \<Rightarrow>
          (Inr (), w\<lparr>remote := b'\<rparr>,
           [Invoke ''hide_window'' [], Rejected e, ConsoleError ''Failed to hide window:'' e])
      | (Inr u, b') \<Rightarrow> (Inr (), w\<lparr>remote := b'\<rparr>, [Invoke ''hide_window'' []]))"
  by (simp add: hideWindow_def js_defs split: prod.splits sum.splits)

lemma loadRegisteredApps_ok:
  "outcome (loadRegisteredApps be w) = Inr () \<and> reported (trace (loadRegisteredApps be w))"
  by (simp add: loadRegisteredApps_run split: prod.splits sum.splits)

lemma loadRegisteredApps_App_ok:
  "outcome (loadRegisteredApps_App be w) = Inr () \<and> reported (trace (loadRegisteredApps_App be w))"
  by (simp add: loadRegisteredApps_App_run split: prod.splits sum.splits)

lemma loadRunningApps_ok:
  "outcome (loadRunningApps be w) = Inr () \<and> reported (trace (loadRunningApps be w))"
  by (simp add: loadRunningApps_run split: prod.splits sum.splits)

lemma handleSave_ok:
  "outcome (handleSave be w) = Inr () \<and> reported (trace (handleSave be w))"
  by (simp add: handleSave_run Let_def loadRegisteredApps_run split: prod.splits sum.splits)

lemma handleDelete_ok:
  "outcome (handleDelete be yes app w) = Inr () \<and> reported (trace (handleDelete be yes app w))"
  by (simp add: handleDelete_run loadRegisteredApps_run split: prod.splits sum.splits)

lemma handleLaunchApp_ok:
  "outcome (handleLaunchApp be app w) = Inr () \<and> reported (trace (handleLaunchApp be app w))"
  by (simp add: handleLaunchApp_run split: prod.splits sum.splits)

lemma handleLaunchApp_App0_ok:
  "outcome (handleLaunchApp_App0 be app w) = Inr () \<and> reported (trace (handleLaunchApp_App0 be app w))"
  by (simp add: handleLaunchApp_App0_run split: prod.splits sum.splits)

lemma handleStopApp_ok:
  "outcome (handleStopApp be app w) = Inr () \<and> reported (trace (handleStopApp be app w))"
  by (simp add: handleStopApp_run split: prod.splits sum.splits)

lemma hideWindow_ok:
  "outcome (hideWindow be w) = Inr () \<and> reported (trace (hideWindow be w))"
  by (simp add: hideWindow_run split: prod.splits sum.splits)

lemma selectFile_ok:
  "outcome (selectFile be w) = Inr () \<and> reported (trace (selectFile be w))"
  by (simp add: selectFile_run split: prod.splits sum.splits option.splits)

lemma handleSettingsClose_ok:
  "outcome (handleSettingsClose be w) = Inr () \<and> reported (trace (handleSettingsClose be w))"
  by (simp add: handleSettingsClose_def js_defs loadRegisteredApps_App_run loadRunningApps_run
      split: prod.splits sum.splits)

lemma loadRegisteredApps_App0_ok:
  "outcome (loadRegisteredApps_App0 be w) = Inr () \<and> reported (trace (loadRegisteredApps_App0 be w))"
  by (simp add: loadRegisteredApps_App0_def js_defs split: prod.splits sum.splits)

lemma handleSettingsClose_App0_ok:
  "outcome (handleSettingsClose_App0 be w) = Inr () \<and>
   reported (trace (handleSettingsClose_App0 be w))"
  by (simp add: handleSettingsClose_App0_def loadRegisteredApps_App0_def js_defs
      split: prod.splits sum.splits)

lemma reported_surfaces:
  "reported evs \<Longrightarrow> Rejected e \<in> set evs \<Longrightarrow> \<exists>m. m \<noteq> [] \<and> ConsoleError m e \<in> set evs"
  by (induction evs rule: reported.induct) auto

lemma reported_no_unhandled:
  "reported evs \<Longrightarrow> UnhandledRejection e \<notin> set evs"
  by (induction evs rule: reported.induct) auto

text \<open>
  Claim C7. Every handler that calls the native side (save, delete, launch in both
  components, stop, the three loaders, closing the settings, the file dialog, hide) ends
  normally whatever the native side answers: no exception leaves the handler and no
  promise started without \<^verbatim>\<open>await\<close> is left rejected. Every rejection is followed at once
  by a \<^verbatim>\<open>console.error\<close> with a non-empty text and the error of the rejection (the save,
  delete, launch and stop handlers of the settings panel and of the main window with the
  running set add an alert).
\<close>

theorem handlers_catch_every_failure:
  "outcome (handleSave be ws) = Inr () \<and> reported (trace (handleSave be ws)) \<and>
   outcome (handleDelete be yes app ws) = Inr () \<and> reported (trace (handleDelete be yes app ws)) \<and>
   outcome (selectFile be ws) = Inr () \<and> reported (trace (selectFile be ws)) \<and>
   outcome (loadRegisteredApps be ws) = Inr () \<and> reported (trace (loadRegisteredApps be ws)) \<and>
   outcome (handleLaunchApp be app wa) = Inr () \<and> reported (trace (handleLaunchApp be app wa)) \<and>
   outcome (handleStopApp be app wa) = Inr () \<and> reported (trace (handleStopApp be app wa)) \<and>
   outcome (loadRegisteredApps_App be wa) = Inr () \<and> reported (trace (loadRegisteredApps_App be wa)) \<and>
   outcome (loadRunningApps be wa) = Inr () \<and> reported (trace (loadRunningApps be wa)) \<and>
   outcome (handleSettingsClose be wa) = Inr () \<and> reported (trace (handleSettingsClose be wa)) \<and>
   outcome (hideWindow be wa) = Inr () \<and> reported (trace (hideWindow be wa)) \<and>
   outcome (handleLaunchApp_App0 be app w0) = Inr () \<and> reported (trace (handleLaunchApp_App0 be app w0)) \<and>
   outcome (loadRegisteredApps_App0 be w0) = Inr () \<and> reported (trace (loadRegisteredApps_App0 be w0)) \<and>
   outcome (handleSettingsClose_App0 be w0) = Inr () \<and> reported (trace (handleSettingsClose_App0 be w0)) \<and>
   outcome (hideWindow be w0) = Inr () \<and> reported (trace (hideWindow be w0))"
  using handleSave_ok [of be ws] handleDelete_ok [of be yes app ws] selectFile_ok [of be ws]
    loadRegisteredApps_ok [of be ws] handleLaunchApp_ok [of be app wa] handleStopApp_ok [of be app wa]
    loadRegisteredApps_App_ok [of be wa] loadRunningApps_ok [of be wa]
    handleSettingsClose_ok [of be wa] hideWindow_ok [of be wa]
    handleLaunchApp_App0_ok [of be app w0] loadRegisteredApps_App0_ok [of be w0]
    handleSettingsClose_App0_ok [of be w0] hideWindow_ok [of be w0]
  by blast

theorem handlers_catch_every_failure_witness:
  "handleSave be_down world1 =
     (Inr (), world1,
      [Invoke ''update_registered_app'' ((''id'', JStr ''a1'') # form_args form1),
       Rejected ''offline'', ConsoleError ''Failed to save app:'' ''offline'', Alert SaveFailed]) \<and>
   reported (trace (handleSave be_down world1)) \<and>
   handleStopApp be_down clock_app app_world0 =
     (Inr (), app_world0,
      [ConsoleLog ''Stopping app: Clock (ID: b2)'',
       Invoke ''stop_application'' [(''appId'', JStr ''b2'')],
       Rejected ''offline'', ConsoleError ''Failed to stop application:'' ''offline'',
       Alert (StopFailed ''offline'')]) \<and>
   reported (trace (handleStopApp be_down clock_app app_world0)) \<and>
   outcome (handleSettingsClose_App0 be_down app0_world0) = Inr () \<and>
   reported (trace (handleSettingsClose_App0 be_down app0_world0))"
  using handlers_catch_every_failure [of be_down world1 True clock_app app_world0 app0_world0]
  by (simp add: handleSave_run handleStopApp_run Let_def be_down_def fixed_backend_def world1_def
      settings0_def form1_def notepad_app_def clock_app_def app_world0_def)

section \<open>The file dialog\<close>

text \<open>
  Claim C8, as amended. When \<open>open_file_dialog\<close> answers \<^verbatim>\<open>null\<close> or the empty string,
  \<open>selectFile\<close> leaves the component state, the form among it, unchanged. When it answers
  a non-empty string, \<open>selectFile\<close> sets the path of the form to that string and leaves the
  name, the arguments, the description, the delay and both flags, and the rest of the
  component state, as they were.
\<close>

theorem selectFile_sets_only_path:
  "(fst (be_dialog be (remote w)) = Inr None \<or> fst (be_dialog be (remote w)) = Inr (Some []) \<longrightarrow>
      ui (after (selectFile be w)) = ui w) \<and>
   (p \<noteq> [] \<and> fst (be_dialog be (remote w)) = Inr (Some p) \<longrightarrow>
      ui (after (selectFile be w)) = (ui w)\<lparr>formData := (formData (ui w))\<lparr>path_f := p\<rparr>\<rparr> \<and>
      name_f (formData (ui (after (selectFile be w)))) = name_f (formData (ui w)) \<and>
      arguments_f (formData (ui (after (selectFile be w)))) = arguments_f (formData (ui w)) \<and>
      description_f (formData (ui (after (selectFile be w)))) = description_f (formData (ui w)) \<and>
      delay_f (formData (ui (after (selectFile be w)))) = delay_f (formData (ui w)) \<and>
      preventDuplicate (formData (ui (after (selectFile be w)))) = preventDuplicate (formData (ui w)) \<and>
      autoStart (formData (ui (after (selectFile be w)))) = autoStart (formData (ui w)))"
  by (cases "be_dialog be (remote w)") (auto simp add: selectFile_run)

theorem selectFile_sets_only_path_witness:
  "fst (be_dialog be_blank (remote world1)) = Inr (Some []) \<and>
   ui (after (selectFile be_blank world1)) = ui world1 \<and>
   ''D:/new.exe'' \<noteq> [] \<and> fst (be_dialog be_ok (remote world1)) = Inr (Some ''D:/new.exe'') \<and>
   formData (ui (after (selectFile be_ok world1))) = form1\<lparr>path_f := ''D:/new.exe''\<rparr>"
  using selectFile_sets_only_path [of be_blank world1 "''D:/new.exe''"]
    selectFile_sets_only_path [of be_ok world1 "''D:/new.exe''"]
  by (simp add: be_blank_def be_ok_def fixed_backend_def world1_def)

text \<open>
  The claim as first stated has the path set to every string that is not \<^verbatim>\<open>null\<close>. The
  guard of \<open>selectFile\<close> is \<^verbatim>\<open>if (path)\<close>, and the empty string is falsy: with the path
  \<^verbatim>\<open>C:/old.exe\<close> in the form and the empty string for an answer, the path stays.
\<close>

theorem selectFile_empty_string_counterexample:
  "fst (be_dialog be_blank (remote world1)) = Inr (Some '''') \<and>
   path_f (formData (ui world1)) = ''C:/old.exe'' \<and>
   formData (ui (after (selectFile be_blank world1))) \<noteq> (formData (ui world1))\<lparr>path_f := ''''\<rparr> \<and>
   path_f (formData (ui (after (selectFile be_blank world1)))) = ''C:/old.exe''"
  by (simp add: selectFile_run be_blank_def fixed_backend_def world1_def form1_def)

section \<open>Duplicate prevention in the launch supervisor\<close>

lemma launch_running_noop:
  "lookup_app sv i = Some app \<Longrightarrow> prevent_duplicate app = Some True \<Longrightarrow>
   instances_of sv i \<noteq> [] \<Longrightarrow> launch spawn now i sv = (Inr (), sv)"
  by (simp add: launch_def)

lemma launch_first_success:
  "lookup_app sv i = Some app \<Longrightarrow> instances_of sv i = [] \<Longrightarrow>
   launch spawn now i sv = (Inr (), sv1) \<Longrightarrow>
   (\<exists>h. sv1 = sv\<lparr>instances := instances sv @ [\<lparr>instance_of = i, handle = h, started = now\<rparr>],
                 spawned := Suc (spawned sv)\<rparr>)"
  by (auto simp add: launch_def split: option.splits if_splits)

text \<open>
  Claim C2. For an app whose \<open>prevent_duplicate\<close> is true: a launch made while the app has
  a running instance returns success and leaves the supervisor as it was, so no process
  is spawned. Starting with no instance, when a first launch succeeds, a second launch
  right after it (whatever the operating system would answer, at whatever time) returns
  success and changes nothing: the app has exactly one running instance and one process
  was spawned in all.
\<close>

theorem launch_twice_one_instance:
  assumes "lookup_app sv i = Some app" and "prevent_duplicate app = Some True"
  shows "(instances_of sv i \<noteq> [] \<longrightarrow> launch spawn now i sv = (Inr (), sv)) \<and>
         (instances_of sv i = [] \<and> launch spawn now i sv = (Inr (), sv1) \<longrightarrow>
            launch spawn' now' i sv1 = (Inr (), sv1) \<and>
            length (instances_of (snd (launch spawn' now' i sv1)) i) = 1 \<and>
            spawned (snd (launch spawn' now' i sv1)) = spawned sv + 1)"
proof (intro conjI impI)
  assume "instances_of sv i \<noteq> []"
  with assms show "launch spawn now i sv = (Inr (), sv)"
    by (rule launch_running_noop)
next
  assume a: "instances_of sv i = [] \<and> launch spawn now i sv = (Inr (), sv1)"
  with assms(1) obtain h where
    sv1: "sv1 = sv\<lparr>instances := instances sv @ [\<lparr>instance_of = i, handle = h, started = now\<rparr>],
                   spawned := Suc (spawned sv)\<rparr>"
    using launch_first_success by blast
  have reg: "lookup_app sv1 i = Some app"
    using assms(1) by (simp add: sv1 lookup_app_def)
  have inst: "instances_of sv1 i = [\<lparr>instance_of = i, handle = h, started = now\<rparr>]"
    using a by (simp add: sv1 instances_of_def)
  then have "instances_of sv1 i \<noteq> []"
    by simp
  with reg assms(2) show second: "launch spawn' now' i sv1 = (Inr (), sv1)"
    by (rule launch_running_noop)
  show "length (instances_of (snd (launch spawn' now' i sv1)) i) = 1"
    by (simp add: second inst)
  show "spawned (snd (launch spawn' now' i sv1)) = spawned sv + 1"
    by (simp add: second) (simp add: sv1)
qed

theorem launch_twice_one_instance_witness:
  "lookup_app supervisor0 ''a1'' = Some notepad_app \<and>
   prevent_duplicate notepad_app = Some True \<and>
   instances_of supervisor0 ''a1'' = [] \<and>
   launch spawn_ok 7 ''a1'' supervisor0 =
     (Inr (), supervisor0\<lparr>instances := [\<lparr>instance_of = ''a1'', handle = 4242, started = 7\<rparr>],
                spawned := 1\<rparr>) \<and>
   launch spawn_ok 9 ''a1''
       (supervisor0\<lparr>instances := [\<lparr>instance_of = ''a1'', handle = 4242, started = 7\<rparr>],
                spawned := 1\<rparr>) =
     (Inr (), supervisor0\<lparr>instances := [\<lparr>instance_of = ''a1'', handle = 4242, started = 7\<rparr>],
                spawned := 1\<rparr>)"
proof -
  have l: "lookup_app supervisor0 ''a1'' = Some notepad_app"
    by (simp add: lookup_app_def supervisor0_def notepad_app_def clock_app_def)
  have p: "prevent_duplicate notepad_app = Some True"
    by (simp add: notepad_app_def)
  have e: "instances_of supervisor0 ''a1'' = []"
    by (simp add: instances_of_def supervisor0_def)
  have f: "launch spawn_ok 7 ''a1'' supervisor0 =
     (Inr (), supervisor0\<lparr>instances := [\<lparr>instance_of = ''a1'', handle = 4242, started = 7\<rparr>],
                spawned := 1\<rparr>)"
    using l e by (simp add: launch_def spawn_ok_def) (simp add: supervisor0_def)
  from launch_twice_one_instance [OF l p, of spawn_ok 7 _ spawn_ok 9] e f
  have "launch spawn_ok 9 ''a1''
       (supervisor0\<lparr>instances := [\<lparr>instance_of = ''a1'', handle = 4242, started = 7\<rparr>],
                spawned := 1\<rparr>) =
     (Inr (), supervisor0\<lparr>instances := [\<lparr>instance_of = ''a1'', handle = 4242, started = 7\<rparr>],
                spawned := 1\<rparr>)"
    by blast
  with l p e f show ?thesis
    by simp
qed

end
